theory Spec2Isabelle
  imports Complex_Main
begin

section \<open>The market research notebook\<close>

text \<open>
  \<^verbatim>\<open>src/notebooks/market_research.ipynb\<close> holds one code cell. It imports
  \<^verbatim>\<open>yfinance as yf\<close>, \<^verbatim>\<open>pandas as pd\<close>, \<^verbatim>\<open>numpy as np\<close>,
  \<^verbatim>\<open>matplotlib.pyplot as plt\<close> and \<^verbatim>\<open>datetime, timedelta\<close>, binds the dictionary
  \<^verbatim>\<open>research_universe\<close>, defines \<^verbatim>\<open>analyze_market_correlations\<close>, flattens the
  dictionary into \<^verbatim>\<open>all_tickers\<close> and calls the routine on the first ten tickers.

  The embedding keeps the cell's order. Exceptions are values of a sum type, printed
  lines, provider requests and opened figures are fields of an explicit kernel state,
  and Python's list objects live in a store, so that in-place mutation
  (\<^verbatim>\<open>all_tickers.extend(category)\<close>) is visible.
\<close>

subsection \<open>Exceptions, series and the kernel state\<close>

type_synonym ticker = string

text \<open>
  A price series is what \<^verbatim>\<open>stock.history(period=period)['Close']\<close> evaluates to: rows
  of a date (an ordinal number) and a closing price, where \<open>None\<close> is a missing price
  (NaN).
\<close>

type_synonym series = "(nat \<times> real option) list"

text \<open>
  \<open>NameError\<close> is Python's exception for a name that is bound nowhere; \<open>Raised\<close> is any
  exception the data provider raises (the routine's bare \<^verbatim>\<open>except:\<close> does not look at
  its kind).
\<close>

datatype exn = NameError string | Raised string

text \<open>
  The provider answers the \<open>i\<close>-th request of a run for a ticker and a period either
  with an exception or with a series. The request number lets an answer differ between
  two requests for the same ticker, as a network service's may.
\<close>

type_synonym provider = "nat \<Rightarrow> ticker \<Rightarrow> string \<Rightarrow> exn + series"

record kernel =
  heap :: "nat \<Rightarrow> string list option"
  fresh :: nat
  research_universe :: "(string \<times> nat) list"
  stdout :: "string list"
  requests :: "(ticker \<times> string) list"
  figures :: nat

text \<open>
  \<open>heap\<close> maps the address of a list object to its elements and \<open>fresh\<close> is the next
  unused address. \<open>research_universe\<close> is the dictionary of the cell's lines 18 to 24:
  category names in insertion order, each with the address of its list.
\<close>

definition contents :: "kernel \<Rightarrow> nat \<Rightarrow> string list" where
  "contents s a = (case heap s a of Some xs \<Rightarrow> xs | None \<Rightarrow> [])"

definition new_list :: "string list \<Rightarrow> kernel \<Rightarrow> nat \<times> kernel" where
  "new_list xs s = (fresh s, s\<lparr>heap := (heap s)(fresh s \<mapsto> xs), fresh := Suc (fresh s)\<rparr>)"

text \<open>\<^verbatim>\<open>a.extend(b)\<close> appends the elements of \<open>b\<close> to the object \<open>a\<close> in place.\<close>

definition list_extend :: "nat \<Rightarrow> nat \<Rightarrow> kernel \<Rightarrow> kernel" where
  "list_extend a b s = s\<lparr>heap := (heap s)(a \<mapsto> contents s a @ contents s b)\<rparr>"

definition print_line :: "string \<Rightarrow> kernel \<Rightarrow> kernel" where
  "print_line msg s = s\<lparr>stdout := stdout s @ [msg]\<rparr>"

subsection \<open>Global names\<close>

text \<open>
  A free name of a function body is looked up when the body runs, in the module's
  globals. These are the names the cell has bound when its last line calls the routine:
  the imports of lines 11 to 15, \<^verbatim>\<open>research_universe\<close>, the routine itself,
  \<^verbatim>\<open>all_tickers\<close> and the loop variable \<^verbatim>\<open>category\<close>. The cell imports no
  \<^verbatim>\<open>seaborn\<close> and binds no \<^verbatim>\<open>sns\<close>.
\<close>

definition module_globals :: "string list" where
  "module_globals =
     [''yf'', ''pd'', ''np'', ''plt'', ''datetime'', ''timedelta'',
      ''research_universe'', ''analyze_market_correlations'', ''all_tickers'', ''category'']"

definition load_global :: "string \<Rightarrow> exn + unit" where
  "load_global name = (if name \<in> set module_globals then Inr () else Inl (NameError name))"

subsection \<open>The fetch loop (lines 29 to 35)\<close>

text \<open>
  \<^verbatim>\<open>data[ticker] = v\<close> on a Python dictionary: a new key is appended, a key that is
  already there keeps its place and takes the new value.
\<close>

fun dict_set :: "'k \<Rightarrow> 'v \<Rightarrow> ('k \<times> 'v) list \<Rightarrow> ('k \<times> 'v) list" where
  "dict_set k v [] = [(k, v)]"
| "dict_set k v ((k', v') # kvs) =
     (if k' = k then (k, v) # kvs else (k', v') # dict_set k v kvs)"

text \<open>
  The body of the \<^verbatim>\<open>try\<close>: \<^verbatim>\<open>stock = yf.Ticker(ticker)\<close> and
  \<^verbatim>\<open>stock.history(period=period)['Close']\<close>. The request is recorded in the kernel
  state; its number is the count of the requests made before it.
\<close>

definition try_body :: "provider \<Rightarrow> string \<Rightarrow> ticker \<Rightarrow> kernel \<Rightarrow> (exn + series) \<times> kernel" where
  "try_body P period t s =
     (case load_global ''yf'' of
        Inl e \<Rightarrow> (Inl e, s)
      | Inr _ \<Rightarrow> (P (length (requests s)) t period, s\<lparr>requests := requests s @ [(t, period)]\<rparr>))"

fun fetch_loop ::
  "provider \<Rightarrow> string \<Rightarrow> ticker list \<Rightarrow> (ticker \<times> series) list \<Rightarrow> kernel
     \<Rightarrow> (ticker \<times> series) list \<times> kernel" where
  "fetch_loop P period [] data s = (data, s)"
| "fetch_loop P period (t # ts) data s =
     (case try_body P period t s of
        (Inr close, s') \<Rightarrow> fetch_loop P period ts (dict_set t close data) s'
      | (Inl e, s') \<Rightarrow>
          fetch_loop P period ts data (print_line (''Failed to get data for '' @ t) s'))"

subsection \<open>The table, the returns and the correlation (lines 37 and 38)\<close>

record 'r frame =
  index :: "'r list"
  columns :: "string list"
  cols :: "real option list list"

text \<open>
  A frame has row labels, column labels and one list of cells for each column, a cell
  for each row; \<open>None\<close> is a cell that holds no finite number.
\<close>

text \<open>
  Modelled from the spec: \<^verbatim>\<open>pd.DataFrame\<close> belongs to pandas, which is not under
  \<^verbatim>\<open>src/\<close>. The spec's joint price table is "ticker to aligned price series, combined
  by date index; missing values arise naturally from fetch failures or non-overlapping
  trading calendars": the rows are the dates of all series in increasing order, the
  columns are the dictionary's keys in their order, and a cell is the series' price at the
  date, missing where the series has no row for it. A series is taken to hold each
  date once, as the provider's do.
\<close>

definition DataFrame :: "(ticker \<times> series) list \<Rightarrow> nat frame" where
  "DataFrame data =
     (let idx = sort (remdups (concat (map (\<lambda>(t, sr). map fst sr) data)))
      in \<lparr>index = idx,
          columns = map fst data,
          cols = map (\<lambda>(t, sr). map (\<lambda>d. case map_of sr d of Some v \<Rightarrow> v | None \<Rightarrow> None) idx) data\<rparr>)"

text \<open>
  Modelled from the spec: \<^verbatim>\<open>DataFrame.pct_change\<close> belongs to pandas. The spec's
  return is "the percentage change in price between consecutive observations", computed
  "per column": row \<open>i\<close> holds \<open>p\<^sub>i / p\<^sub>i\<^sub>-\<^sub>1 - 1\<close>, the first row holds nothing, and a
  change from or to a missing price, or from the price 0, is no finite number. Exact real
  arithmetic stands for the doubles. Whether a missing price is first replaced by the
  last price before it (pandas' \<^verbatim>\<open>fill_method='pad'\<close>, the default of the versions
  before 3.0) depends on the installed pandas, so it is the parameter \<open>pad\<close>.
\<close>

fun ffill :: "real option \<Rightarrow> real option list \<Rightarrow> real option list" where
  "ffill prev [] = []"
| "ffill prev (x # xs) = (case x of None \<Rightarrow> prev # ffill prev xs | Some v \<Rightarrow> x # ffill x xs)"

definition change :: "real option \<Rightarrow> real option \<Rightarrow> real option" where
  "change prev cur =
     (case (prev, cur) of
        (Some p, Some c) \<Rightarrow> if p = 0 then None else Some (c / p - 1)
      | _ \<Rightarrow> None)"

definition pct_col :: "real option list \<Rightarrow> real option list" where
  "pct_col xs = (case xs of [] \<Rightarrow> [] | x # rest \<Rightarrow> None # map2 change xs rest)"

definition pct_change :: "bool \<Rightarrow> 'r frame \<Rightarrow> 'r frame" where
  "pct_change pad f = f\<lparr>cols := map (\<lambda>c. pct_col (if pad then ffill None c else c)) (cols f)\<rparr>"

text \<open>
  Modelled from the spec: \<^verbatim>\<open>DataFrame.corr\<close> belongs to pandas. The spec's correlation
  matrix is the "ticker by ticker table of Pearson correlation coefficients" between the
  return columns. For two columns the coefficient is taken over the rows where both hold
  a finite number: the sum of the products of the deviations from the two means, divided
  by the square root of the product of the two sums of squared deviations. Where that
  divisor is 0 (no common row, one common row, or a column that is constant on the common
  rows) the coefficient is undefined and the cell is NaN, here \<open>None\<close>.
\<close>

fun pairs :: "real option list \<Rightarrow> real option list \<Rightarrow> (real \<times> real) list" where
  "pairs (Some a # xs) (Some b # ys) = (a, b) # pairs xs ys"
| "pairs (x # xs) (y # ys) = pairs xs ys"
| "pairs xs ys = []"

definition mean :: "real list \<Rightarrow> real" where
  "mean xs = sum_list xs / real (length xs)"

definition ssq :: "real list \<Rightarrow> real" where
  "ssq xs = (\<Sum>x\<leftarrow>xs. (x - mean xs) * (x - mean xs))"

definition sprod :: "(real \<times> real) list \<Rightarrow> real" where
  "sprod ps = (\<Sum>(x, y)\<leftarrow>ps. (x - mean (map fst ps)) * (y - mean (map snd ps)))"

definition pearson :: "(real \<times> real) list \<Rightarrow> real option" where
  "pearson ps =
     (let d = sqrt (ssq (map fst ps) * ssq (map snd ps))
      in if ps = [] \<or> d = 0 then None else Some (sprod ps / d))"

definition corr :: "'r frame \<Rightarrow> string frame" where
  "corr f =
     \<lparr>index = columns f,
      columns = columns f,
      cols = map (\<lambda>y. map (\<lambda>x. pearson (pairs x y)) (cols f)) (cols f)\<rparr>"

text \<open>The cell of a frame in row \<open>i\<close> and column \<open>j\<close>.\<close>

definition entry :: "'r frame \<Rightarrow> nat \<Rightarrow> nat \<Rightarrow> real option" where
  "entry m i j = cols m ! j ! i"

subsection \<open>The routine (lines 27 to 46)\<close>

text \<open>
  The loop fills \<^verbatim>\<open>data\<close>. Then the routine looks up \<^verbatim>\<open>pd\<close> and builds the table
  (line 37), computes the matrix (line 38), looks up \<^verbatim>\<open>plt\<close> and opens a figure
  (line 41), and looks up \<^verbatim>\<open>sns\<close> (line 42). Nothing outside the \<^verbatim>\<open>try\<close> of lines
  31 to 35 catches an exception, so the first failing lookup ends the call; the rest
  of the plot (lines 42 to 44) and the \<^verbatim>\<open>return\<close> of line 46 follow only where the
  lookup of \<^verbatim>\<open>sns\<close> succeeds. The parameter \<open>period\<close> has the default
  \<^verbatim>\<open>'3mo'\<close>, which the caller passes here.
\<close>

definition analyze_market_correlations ::
  "bool \<Rightarrow> provider \<Rightarrow> ticker list \<Rightarrow> string \<Rightarrow> kernel \<Rightarrow> (exn + string frame) \<times> kernel" where
  "analyze_market_correlations pad P tickers period s =
     (let (data, s1) = fetch_loop P period tickers [] s
      in case load_global ''pd'' of
           Inl e \<Rightarrow> (Inl e, s1)
         | Inr _ \<Rightarrow>
             (let df = DataFrame data;
                  m = corr (pct_change pad df)
              in case load_global ''plt'' of
                   Inl e \<Rightarrow> (Inl e, s1)
                 | Inr _ \<Rightarrow>
                     (let s2 = s1\<lparr>figures := Suc (figures s1)\<rparr>
                      in case load_global ''sns'' of
                           Inl e \<Rightarrow> (Inl e, s2)
                         | Inr _ \<Rightarrow> (Inr m, s2))))"

text \<open>
  The properties below speak of the value that line 38 binds to the local variable
  \<^verbatim>\<open>correlation_matrix\<close> (\<open>m\<close> above) and that line 46 names in its
  \<^verbatim>\<open>return\<close>.
\<close>

definition correlation_matrix ::
  "bool \<Rightarrow> provider \<Rightarrow> ticker list \<Rightarrow> string \<Rightarrow> kernel \<Rightarrow> string frame" where
  "correlation_matrix pad P tickers period s =
     corr (pct_change pad (DataFrame (fst (fetch_loop P period tickers [] s))))"

subsection \<open>The top level (lines 18 to 24 and 48 to 54)\<close>

definition define_universe :: "kernel \<Rightarrow> kernel" where
  "define_universe s0 =
     (let (a1, s1) = new_list [''SPY'', ''QQQ'', ''IWM'', ''DIA''] s0;
          (a2, s2) = new_list [''XLF'', ''XLK'', ''XLE'', ''XLV'', ''XLI''] s1;
          (a3, s3) = new_list [''GLD'', ''SLV'', ''USO'', ''UNG''] s2;
          (a4, s4) = new_list [''TLT'', ''IEF'', ''SHY'', ''HYG''] s3;
          (a5, s5) = new_list [''VIX'', ''UVXY'', ''SVXY''] s4
      in s5\<lparr>research_universe :=
               [(''indices'', a1), (''sectors'', a2), (''commodities'', a3),
                (''bonds'', a4), (''volatility'', a5)]\<rparr>)"

text \<open>
  \<^verbatim>\<open>for category in research_universe.values(): all_tickers.extend(category)\<close>, over the
  addresses of the category lists.
\<close>

fun flatten_loop :: "nat list \<Rightarrow> nat \<Rightarrow> kernel \<Rightarrow> kernel" where
  "flatten_loop [] a s = s"
| "flatten_loop (c # cs) a s = flatten_loop cs a (list_extend a c s)"

text \<open>
  The message of line 53 starts with the magnifying glass U+1F50D, four bytes in UTF-8.
\<close>

definition banner :: string where
  "banner = [CHR 0xF0, CHR 0x9F, CHR 0x94, CHR 0x8D] @ '' Analyzing market correlations...''"

text \<open>
  Lines 18 to 53 and the slice of line 54: the address of \<^verbatim>\<open>all_tickers\<close>, the
  address of the list that \<^verbatim>\<open>all_tickers[:10]\<close> creates, and the state in which the
  routine is called.
\<close>

definition before_call :: "kernel \<Rightarrow> nat \<times> nat \<times> kernel" where
  "before_call s0 =
     (let s1 = define_universe s0;
          (all_tickers, s2) = new_list [] s1;
          s3 = flatten_loop (map snd (research_universe s2)) all_tickers s2;
          s4 = print_line banner s3;
          (arg, s5) = new_list (take 10 (contents s4 all_tickers)) s4
      in (all_tickers, arg, s5))"

definition run_cell :: "bool \<Rightarrow> provider \<Rightarrow> kernel \<Rightarrow> (exn + string frame) \<times> kernel" where
  "run_cell pad P s0 =
     (let (all_tickers, arg, s) = before_call s0
      in analyze_market_correlations pad P (contents s arg) ''3mo'' s)"

text \<open>A kernel that has run nothing yet.\<close>

definition new_kernel :: kernel where
  "new_kernel =
     \<lparr>heap = Map.empty, fresh = 0, research_universe = [], stdout = [], requests = [],
      figures = 0\<rparr>"

text \<open>
  What \<^verbatim>\<open>research_universe\<close> shows when it is read: each category with the elements
  of its list; and \<^verbatim>\<open>research_universe[name]\<close>.
\<close>

definition universe_view :: "kernel \<Rightarrow> (string \<times> string list) list" where
  "universe_view s = map (\<lambda>(c, a). (c, contents s a)) (research_universe s)"

definition category :: "kernel \<Rightarrow> string \<Rightarrow> string list" where
  "category s name = (case map_of (research_universe s) name of Some a \<Rightarrow> contents s a | None \<Rightarrow> [])"

section \<open>Notions the properties are stated with\<close>

subsection \<open>The provider's answers during a run\<close>

text \<open>
  The answers the provider gives to the requests of the loop, the first of which has
  number \<open>n\<close>; the tickers of the requests that returned a series, and of those that
  raised.
\<close>

fun answers :: "provider \<Rightarrow> string \<Rightarrow> nat \<Rightarrow> ticker list \<Rightarrow> (ticker \<times> (exn + series)) list" where
  "answers P period n [] = []"
| "answers P period n (t # ts) = (t, P n t period) # answers P period (Suc n) ts"

definition fetched :: "provider \<Rightarrow> string \<Rightarrow> nat \<Rightarrow> ticker list \<Rightarrow> ticker list" where
  "fetched P period n ts = map fst (filter (\<lambda>(t, r). \<not> isl r) (answers P period n ts))"

definition failed :: "provider \<Rightarrow> string \<Rightarrow> nat \<Rightarrow> ticker list \<Rightarrow> ticker list" where
  "failed P period n ts = map fst (filter (\<lambda>(t, r). isl r) (answers P period n ts))"

text \<open>A list without its repetitions, every element at its first place.\<close>

definition add_new :: "'a list \<Rightarrow> 'a \<Rightarrow> 'a list" where
  "add_new ks k = (if k \<in> set ks then ks else ks @ [k])"

definition first_seen :: "'a list \<Rightarrow> 'a list" where
  "first_seen ks = foldl add_new [] ks"

subsection \<open>Shapes and ranges of a matrix\<close>

definition is_square :: "string frame \<Rightarrow> bool" where
  "is_square m \<longleftrightarrow>
     index m = columns m \<and> length (cols m) = length (columns m) \<and>
     (\<forall>c \<in> set (cols m). length c = length (index m))"

definition is_symmetric :: "string frame \<Rightarrow> bool" where
  "is_symmetric m \<longleftrightarrow>
     (\<forall>i < length (columns m). \<forall>j < length (columns m). entry m i j = entry m j i)"

text \<open>A cell lies in the closed interval from -1 to 1: it holds a number, and that number does.\<close>

definition in_unit_interval :: "real option \<Rightarrow> bool" where
  "in_unit_interval v = (case v of None \<Rightarrow> False | Some r \<Rightarrow> - 1 \<le> r \<and> r \<le> 1)"

text \<open>
  The finite numbers of a column, and their variance (the sample variance, which takes
  two numbers at least).
\<close>

definition finite_values :: "real option list \<Rightarrow> real list" where
  "finite_values c = map fst (pairs c c)"

definition variance :: "real list \<Rightarrow> real option" where
  "variance xs = (if length xs < 2 then None else Some (ssq xs / (real (length xs) - 1)))"

text \<open>
  The returns of a fetched series taken by itself: the percentage changes between its own
  consecutive rows, before the series is aligned with the others by date.
\<close>

definition own_returns :: "series \<Rightarrow> real option list" where
  "own_returns sr = pct_col (map snd sr)"

text \<open>
  The table of line 37 (\<^verbatim>\<open>df\<close>) and the table of returns that line 38 correlates
  (\<^verbatim>\<open>df.pct_change()\<close>).
\<close>

definition price_table :: "provider \<Rightarrow> ticker list \<Rightarrow> string \<Rightarrow> kernel \<Rightarrow> nat frame" where
  "price_table P tickers period s = DataFrame (fst (fetch_loop P period tickers [] s))"

definition returns_table :: "bool \<Rightarrow> provider \<Rightarrow> ticker list \<Rightarrow> string \<Rightarrow> kernel \<Rightarrow> nat frame" where
  "returns_table pad P tickers period s = pct_change pad (price_table P tickers period s)"

text \<open>A table in which no price is missing.\<close>

definition complete :: "'r frame \<Rightarrow> bool" where
  "complete f \<longleftrightarrow> (\<forall>c \<in> set (cols f). None \<notin> set c)"

subsection \<open>The reference definition of the correlation of returns\<close>

text \<open>
  The spec's words, for comparison with the definitions above. A return is "the
  percentage change in price between consecutive observations": the difference of a
  price and the price before it, over the price before it. The Pearson coefficient of
  two samples is their covariance over the product of their standard deviations, and
  needs two observations and two standard deviations other than 0.
\<close>

definition return_spec :: "real option \<Rightarrow> real option \<Rightarrow> real option" where
  "return_spec prev cur =
     (case prev of
        None \<Rightarrow> None
      | Some p \<Rightarrow> (case cur of None \<Rightarrow> None | Some c \<Rightarrow> if p = 0 then None else Some ((c - p) / p)))"

definition returns_spec :: "real option list \<Rightarrow> real option list" where
  "returns_spec xs =
     map (\<lambda>i. if i = 0 then None else return_spec (xs ! (i - 1)) (xs ! i)) [0..<length xs]"

definition covariance :: "(real \<times> real) list \<Rightarrow> real" where
  "covariance ps = sprod ps / (real (length ps) - 1)"

definition std :: "real list \<Rightarrow> real" where
  "std xs = sqrt (ssq xs / (real (length xs) - 1))"

definition pearson_spec :: "(real \<times> real) list \<Rightarrow> real option" where
  "pearson_spec ps =
     (if length ps < 2 \<or> std (map fst ps) = 0 \<or> std (map snd ps) = 0 then None
      else Some (covariance ps / (std (map fst ps) * std (map snd ps))))"

definition reference_matrix :: "nat frame \<Rightarrow> string frame" where
  "reference_matrix df =
     (let rs = map returns_spec (cols df)
      in \<lparr>index = columns df,
          columns = columns df,
          cols = map (\<lambda>y. map (\<lambda>x. pearson_spec (pairs x y)) rs) rs\<rparr>)"

subsection \<open>A fixed provider for examples\<close>

text \<open>
  Three closing prices for some tickers of the universe, and an exception for every
  other ticker. \<^verbatim>\<open>QQQ\<close> has the returns of \<^verbatim>\<open>SPY\<close>, \<^verbatim>\<open>TLT\<close> has their negatives,
  the price of \<^verbatim>\<open>GLD\<close> never moves, and \<^verbatim>\<open>IWM\<close> and \<^verbatim>\<open>DIA\<close> double every
  day.
\<close>

definition demo_provider :: provider where
  "demo_provider i t period =
     (if t = ''SPY'' then Inr [(0, Some 100), (1, Some 110), (2, Some 99)]
      else if t = ''QQQ'' then Inr [(0, Some 50), (1, Some 55), (2, Some (99 / 2))]
      else if t = ''TLT'' then Inr [(0, Some 100), (1, Some 90), (2, Some 99)]
      else if t = ''GLD'' then Inr [(0, Some 5), (1, Some 5), (2, Some 5)]
      else if t = ''IWM'' then Inr [(0, Some 1), (1, Some 2), (2, Some 4)]
      else if t = ''DIA'' then Inr [(0, Some 3), (1, Some 6), (2, Some 12)]
      else Inl (Raised ''no data''))"

definition demo_tickers :: "ticker list" where
  "demo_tickers = [''SPY'', ''VIX'', ''QQQ'', ''TLT'', ''GLD'']"

text \<open>
  A provider whose two series hold the same three prices, the second one day later.
\<close>

definition shifted_provider :: provider where
  "shifted_provider i t period =
     (if t = ''SPY'' then Inr [(0, Some 100), (1, Some 110), (2, Some 99)]
      else if t = ''QQQ'' then Inr [(1, Some 100), (2, Some 110), (3, Some 99)]
      else Inl (Raised ''no data''))"

section \<open>Properties of the fetch loop\<close>

lemma load_global_yf: "load_global ''yf'' = Inr ()"
  by (simp add: load_global_def module_globals_def)

lemma load_global_pd: "load_global ''pd'' = Inr ()"
  by (simp add: load_global_def module_globals_def)

lemma load_global_plt: "load_global ''plt'' = Inr ()"
  by (simp add: load_global_def module_globals_def)

lemma load_global_sns: "load_global ''sns'' = Inl (NameError ''sns'')"
  by (simp add: load_global_def module_globals_def)

lemma analyze_eq:
  "analyze_market_correlations pad P tickers period s =
     (Inl (NameError ''sns''),
      (snd (fetch_loop P period tickers [] s))
        \<lparr>figures := Suc (figures (snd (fetch_loop P period tickers [] s)))\<rparr>)"
  by (simp add: analyze_market_correlations_def Let_def case_prod_unfold load_global_pd
      load_global_plt load_global_sns)

lemma try_body_eq:
  "try_body P period t s =
     (P (length (requests s)) t period, s\<lparr>requests := requests s @ [(t, period)]\<rparr>)"
  by (simp add: try_body_def load_global_yf)

lemma keys_dict_set: "map fst (dict_set k v d) = add_new (map fst d) k"
  by (induction d) (force simp: add_new_def split: if_splits)+

lemma fetch_loop_keys:
  "map fst (fst (fetch_loop P period ts data s))
     = foldl add_new (map fst data) (fetched P period (length (requests s)) ts)"
proof (induction ts arbitrary: data s)
  case Nil
  then show ?case by (simp add: fetched_def)
next
  case (Cons t ts)
  show ?case
  proof (cases "P (length (requests s)) t period")
    case (Inl e)
    then show ?thesis
      using Cons.IH by (simp add: try_body_eq fetched_def print_line_def)
  next
    case (Inr close)
    then show ?thesis
      using Cons.IH by (simp add: try_body_eq fetched_def keys_dict_set)
  qed
qed

lemma fetch_loop_stdout:
  "stdout (snd (fetch_loop P period ts data s))
     = stdout s @ map (\<lambda>t. ''Failed to get data for '' @ t)
         (failed P period (length (requests s)) ts)"
proof (induction ts arbitrary: data s)
  case Nil
  then show ?case by (simp add: failed_def)
next
  case (Cons t ts)
  show ?case
  proof (cases "P (length (requests s)) t period")
    case (Inl e)
    then show ?thesis
      using Cons.IH by (simp add: try_body_eq failed_def print_line_def)
  next
    case (Inr close)
    then show ?thesis
      using Cons.IH by (simp add: try_body_eq failed_def)
  qed
qed

lemma fetch_loop_requests:
  "requests (snd (fetch_loop P period ts data s)) = requests s @ map (\<lambda>t. (t, period)) ts"
proof (induction ts arbitrary: data s)
  case Nil
  then show ?case by simp
next
  case (Cons t ts)
  show ?case
    by (cases "P (length (requests s)) t period")
      (simp_all add: try_body_eq print_line_def Cons.IH)
qed

text \<open>The loop writes neither to the store nor to the dictionary of categories.\<close>

lemma fetch_loop_frame:
  "heap (snd (fetch_loop P period ts data s)) = heap s \<and>
   fresh (snd (fetch_loop P period ts data s)) = fresh s \<and>
   research_universe (snd (fetch_loop P period ts data s)) = research_universe s \<and>
   figures (snd (fetch_loop P period ts data s)) = figures s"
proof (induction ts arbitrary: data s)
  case Nil
  then show ?case by simp
next
  case (Cons t ts)
  show ?case
    by (cases "P (length (requests s)) t period")
      (simp_all add: try_body_eq print_line_def Cons.IH)
qed

lemma set_foldl_add_new: "set (foldl add_new ks xs) = set ks \<union> set xs"
  by (induction xs arbitrary: ks) (auto simp: add_new_def)

lemma distinct_foldl_add_new: "distinct ks \<Longrightarrow> distinct (foldl add_new ks xs)"
  by (induction xs arbitrary: ks) (auto simp: add_new_def)

lemma foldl_add_new_distinct:
  "distinct xs \<Longrightarrow> set ks \<inter> set xs = {} \<Longrightarrow> foldl add_new ks xs = ks @ xs"
  by (induction xs arbitrary: ks) (auto simp: add_new_def)

lemma set_first_seen: "set (first_seen xs) = set xs"
  by (simp add: first_seen_def set_foldl_add_new)

lemma distinct_first_seen: "distinct (first_seen xs)"
  by (simp add: first_seen_def distinct_foldl_add_new)

lemma first_seen_distinct: "distinct xs \<Longrightarrow> first_seen xs = xs"
  by (simp add: first_seen_def foldl_add_new_distinct)

lemma length_foldl_add_new: "length (foldl add_new ks xs) \<le> length ks + length xs"
proof (induction xs arbitrary: ks)
  case Nil
  then show ?case by simp
next
  case (Cons x xs)
  have "length (foldl add_new (add_new ks x) xs) \<le> length (add_new ks x) + length xs"
    by (rule Cons.IH)
  also have "length (add_new ks x) \<le> Suc (length ks)"
    by (simp add: add_new_def)
  finally show ?case by simp
qed

lemma length_fetched: "length (fetched P period n ts) \<le> length ts"
proof -
  have "length (answers P period n ts) = length ts"
    by (induction ts arbitrary: n) simp_all
  then show ?thesis
    unfolding fetched_def length_map
    by (metis length_filter_le)
qed

section \<open>The labels of the computed matrix\<close>

lemma columns_DataFrame: "columns (DataFrame data) = map fst data"
  by (simp add: DataFrame_def Let_def)

lemma columns_correlation_matrix:
  "columns (correlation_matrix pad P ts period s)
     = first_seen (fetched P period (length (requests s)) ts)"
  by (simp add: correlation_matrix_def corr_def pct_change_def columns_DataFrame
      fetch_loop_keys first_seen_def)

lemma index_correlation_matrix:
  "index (correlation_matrix pad P ts period s) = columns (correlation_matrix pad P ts period s)"
  by (simp add: correlation_matrix_def corr_def)

lemma length_cols_DataFrame: "length (cols (DataFrame data)) = length (columns (DataFrame data))"
  by (simp add: DataFrame_def Let_def)

lemma length_cols_correlation_matrix:
  "length (cols (correlation_matrix pad P ts period s))
     = length (columns (correlation_matrix pad P ts period s))"
  by (simp add: correlation_matrix_def corr_def pct_change_def length_cols_DataFrame)

lemma correlation_matrix_returns:
  "correlation_matrix pad P ts period s = corr (returns_table pad P ts period s)"
  by (simp add: correlation_matrix_def returns_table_def price_table_def)

lemma length_cols_returns_table:
  "length (cols (returns_table pad P ts period s))
     = length (columns (correlation_matrix pad P ts period s))"
  by (simp add: correlation_matrix_def returns_table_def price_table_def corr_def
      pct_change_def length_cols_DataFrame)

section \<open>The example run\<close>

lemma demo_fetched:
  "fetched demo_provider ''3mo'' (length (requests new_kernel)) demo_tickers
     = [''SPY'', ''QQQ'', ''TLT'', ''GLD'']"
  by (simp add: fetched_def demo_provider_def demo_tickers_def new_kernel_def)

lemma demo_failed:
  "failed demo_provider ''3mo'' (length (requests new_kernel)) demo_tickers = [''VIX'']"
  by (simp add: failed_def demo_provider_def demo_tickers_def new_kernel_def)

lemma demo_columns:
  "columns (correlation_matrix pad demo_provider demo_tickers ''3mo'' new_kernel)
     = [''SPY'', ''QQQ'', ''TLT'', ''GLD'']"
  by (simp add: columns_correlation_matrix demo_fetched first_seen_distinct)

lemma demo_data:
  "fst (fetch_loop demo_provider ''3mo'' demo_tickers [] new_kernel)
     = [(''SPY'', [(0, Some 100), (1, Some 110), (2, Some 99)]),
        (''QQQ'', [(0, Some 50), (1, Some 55), (2, Some (99 / 2))]),
        (''TLT'', [(0, Some 100), (1, Some 90), (2, Some 99)]),
        (''GLD'', [(0, Some 5), (1, Some 5), (2, Some 5)])]"
  by (simp add: try_body_eq demo_provider_def demo_tickers_def new_kernel_def print_line_def)

lemma demo_returns:
  "cols (returns_table pad demo_provider demo_tickers ''3mo'' new_kernel)
     = [[None, Some (1 / 10), Some (- (1 / 10))],
        [None, Some (1 / 10), Some (- (1 / 10))],
        [None, Some (- (1 / 10)), Some (1 / 10)],
        [None, Some 0, Some 0]]"
  by (simp only: returns_table_def price_table_def demo_data)
    (simp add: pct_change_def DataFrame_def pct_col_def change_def)

lemma demo_variance:
  "variance (finite_values [None, Some (1 / 10), Some (- (1 / 10))]) = Some (1 / 50)"
  by (simp add: variance_def finite_values_def ssq_def mean_def)

section \<open>Fetch failures and the escaping exception\<close>

text \<open>
  Claim C1. A fetch that raises is caught: the loop prints \<^verbatim>\<open>Failed to get data for\<close>
  and the ticker, for every failed request and nothing else, and the labels of the matrix
  of line 38 are the tickers of the requests that returned a series. The routine still
  does not return: after the loop and \<^verbatim>\<open>plt.figure\<close>, line 42 reads the name
  \<^verbatim>\<open>sns\<close>, which the cell never binds, and the \<open>NameError\<close> escapes, for every list
  of tickers and every provider.
\<close>

theorem C1_failures_caught_but_NameError_escapes:
  "fst (analyze_market_correlations pad P tickers period s) = Inl (NameError ''sns'') \<and>
   stdout (snd (analyze_market_correlations pad P tickers period s))
     = stdout s @ map (\<lambda>t. ''Failed to get data for '' @ t)
         (failed P period (length (requests s)) tickers) \<and>
   set (columns (correlation_matrix pad P tickers period s))
     = set (fetched P period (length (requests s)) tickers) \<and>
   index (correlation_matrix pad P tickers period s)
     = columns (correlation_matrix pad P tickers period s)"
  by (simp add: analyze_eq fetch_loop_stdout columns_correlation_matrix set_first_seen
      index_correlation_matrix)

theorem C1_witness:
  "fst (analyze_market_correlations False demo_provider demo_tickers ''3mo'' new_kernel)
     = Inl (NameError ''sns'') \<and>
   stdout (snd (analyze_market_correlations False demo_provider demo_tickers ''3mo'' new_kernel))
     = [''Failed to get data for VIX''] \<and>
   ''VIX'' \<in> set demo_tickers \<and>
   ''VIX'' \<notin> set (columns (correlation_matrix False demo_provider demo_tickers ''3mo'' new_kernel)) \<and>
   index (correlation_matrix False demo_provider demo_tickers ''3mo'' new_kernel)
     = [''SPY'', ''QQQ'', ''TLT'', ''GLD'']"
proof -
  have "stdout new_kernel = []"
    by (simp add: new_kernel_def)
  moreover have "''VIX'' \<in> set demo_tickers"
    by (simp add: demo_tickers_def)
  ultimately show ?thesis
    using C1_failures_caught_but_NameError_escapes
      [of False demo_provider demo_tickers "''3mo''" new_kernel]
    by (simp add: demo_failed demo_fetched demo_columns)
qed

text \<open>
  Claim C2. On the empty list of tickers the loop does nothing and line 38 computes the
  matrix with no row and no column, but the call ends in the \<open>NameError\<close> of line 42,
  with one figure opened; it returns nothing.
\<close>

theorem C2_empty_list_raises_NameError:
  "analyze_market_correlations pad P [] period s
     = (Inl (NameError ''sns''), s\<lparr>figures := Suc (figures s)\<rparr>) \<and>
   correlation_matrix pad P [] period s = \<lparr>index = [], columns = [], cols = []\<rparr>"
  by (simp add: analyze_eq correlation_matrix_def corr_def pct_change_def DataFrame_def)

section \<open>The correlation coefficient\<close>

subsection \<open>Symmetry\<close>

lemma pairs_swap: "pairs ys xs = map prod.swap (pairs xs ys)"
  by (induction xs ys rule: pairs.induct) simp_all

lemma ssq_fst:
  "ssq (map fst ps)
     = (\<Sum>p\<leftarrow>ps. (fst p - mean (map fst ps)) * (fst p - mean (map fst ps)))"
  by (simp add: ssq_def comp_def)

lemma ssq_snd:
  "ssq (map snd ps)
     = (\<Sum>p\<leftarrow>ps. (snd p - mean (map snd ps)) * (snd p - mean (map snd ps)))"
  by (simp add: ssq_def comp_def)

lemma sprod_alt:
  "sprod ps = (\<Sum>p\<leftarrow>ps. (fst p - mean (map fst ps)) * (snd p - mean (map snd ps)))"
  by (simp add: sprod_def case_prod_unfold)

lemma sprod_swap: "sprod (map prod.swap ps) = sprod ps"
  by (simp add: sprod_alt comp_def mult.commute)

lemma pearson_swap: "pearson (map prod.swap ps) = pearson ps"
  by (simp add: pearson_def sprod_swap comp_def mult.commute)

lemma pearson_pairs_commute: "pearson (pairs ys xs) = pearson (pairs xs ys)"
  by (simp add: pairs_swap [of ys xs] pearson_swap)

lemma entry_corr:
  "i < length (cols f) \<Longrightarrow> j < length (cols f) \<Longrightarrow>
   entry (corr f) i j = pearson (pairs (cols f ! i) (cols f ! j))"
  by (simp add: entry_def corr_def)

lemma corr_symmetric:
  "i < length (cols f) \<Longrightarrow> j < length (cols f) \<Longrightarrow> entry (corr f) i j = entry (corr f) j i"
  by (simp add: entry_corr pearson_pairs_commute)

lemma entry_correlation_matrix:
  assumes "i < length (columns (correlation_matrix pad P ts period s))"
    and "j < length (columns (correlation_matrix pad P ts period s))"
  shows "entry (correlation_matrix pad P ts period s) i j
     = pearson (pairs (cols (returns_table pad P ts period s) ! i)
         (cols (returns_table pad P ts period s) ! j))"
  using assms
  by (simp add: correlation_matrix_returns entry_corr
      length_cols_returns_table [unfolded correlation_matrix_returns])

lemma is_symmetric_correlation_matrix: "is_symmetric (correlation_matrix pad P ts period s)"
  unfolding is_symmetric_def
  by (simp add: entry_correlation_matrix pearson_pairs_commute)

lemma is_square_correlation_matrix: "is_square (correlation_matrix pad P ts period s)"
  unfolding is_square_def
  by (auto simp: index_correlation_matrix length_cols_correlation_matrix
      simp: correlation_matrix_def corr_def pct_change_def length_cols_DataFrame)

subsection \<open>The bound, by the inequality of Cauchy and Schwarz\<close>

lemma two_products_le:
  fixes u v A B C :: real
  assumes "0 \<le> A" "0 \<le> C" "B * B \<le> A * C"
  shows "2 * (u * v * B) \<le> u * u * C + A * (v * v)"
proof -
  have nonneg: "0 \<le> u * u * C + A * (v * v)"
    using assms by simp
  have "(2 * (u * v * B)) * (2 * (u * v * B)) = 4 * (u * u) * (v * v) * (B * B)"
    by (simp add: algebra_simps)
  also have "\<dots> \<le> 4 * (u * u) * (v * v) * (A * C)"
    using assms(3) by (intro mult_left_mono) simp_all
  also have "\<dots> \<le> (u * u * C + A * (v * v)) * (u * u * C + A * (v * v))"
  proof -
    have "0 \<le> (u * u * C - A * (v * v)) * (u * u * C - A * (v * v))" by simp
    then show ?thesis by (simp add: algebra_simps)
  qed
  finally have "(2 * (u * v * B))\<^sup>2 \<le> (u * u * C + A * (v * v))\<^sup>2"
    by (simp add: power2_eq_square)
  then show ?thesis
    using nonneg by (rule power2_le_imp_le)
qed

lemma sum_squares_nonneg: "0 \<le> (\<Sum>p\<leftarrow>ps. f p * f p :: real)"
  by (induction ps) simp_all

lemma cauchy_schwarz_list:
  "(\<Sum>p\<leftarrow>ps. f p * g p) * (\<Sum>p\<leftarrow>ps. f p * g p)
     \<le> (\<Sum>p\<leftarrow>ps. f p * f p) * (\<Sum>p\<leftarrow>ps. g p * g p :: real)"
proof (induction ps)
  case Nil
  then show ?case by simp
next
  case (Cons p ps)
  let ?B = "\<Sum>p\<leftarrow>ps. f p * g p"
  let ?A = "\<Sum>p\<leftarrow>ps. f p * f p"
  let ?C = "\<Sum>p\<leftarrow>ps. g p * g p"
  have "2 * (f p * g p * ?B) \<le> f p * f p * ?C + ?A * (g p * g p)"
    using sum_squares_nonneg [of f ps] sum_squares_nonneg [of g ps] Cons.IH
    by (rule two_products_le)
  with Cons.IH show ?case
    by (simp add: algebra_simps)
qed

lemma ssq_nonneg: "0 \<le> ssq xs"
  unfolding ssq_def by (rule sum_squares_nonneg)

lemma sprod_square_le: "sprod ps * sprod ps \<le> ssq (map fst ps) * ssq (map snd ps)"
  unfolding ssq_fst ssq_snd sprod_alt by (rule cauchy_schwarz_list)

lemma abs_sprod_le: "\<bar>sprod ps\<bar> \<le> sqrt (ssq (map fst ps) * ssq (map snd ps))"
proof -
  have "\<bar>sprod ps\<bar> = sqrt (sprod ps * sprod ps)"
    by simp
  also have "\<dots> \<le> sqrt (ssq (map fst ps) * ssq (map snd ps))"
    using sprod_square_le by (simp only: real_sqrt_le_iff)
  finally show ?thesis .
qed

lemma pearson_bounded:
  assumes "pearson ps = Some r"
  shows "- 1 \<le> r \<and> r \<le> 1"
proof -
  define d where "d = sqrt (ssq (map fst ps) * ssq (map snd ps))"
  from assms have d0: "d \<noteq> 0" and r: "r = sprod ps / d"
    by (auto simp: pearson_def d_def Let_def split: if_splits)
  have "0 \<le> d" by (simp add: d_def ssq_nonneg)
  with d0 have dpos: "0 < d" by simp
  have "\<bar>sprod ps\<bar> \<le> d" unfolding d_def by (rule abs_sprod_le)
  with dpos have "\<bar>r\<bar> \<le> 1" by (simp add: r)
  then show ?thesis by (simp add: abs_le_iff)
qed

subsection \<open>Proportional samples\<close>

lemma mean_affine:
  assumes "xs \<noteq> []"
  shows "mean (map (\<lambda>x. k * x + c) xs) = k * mean xs + c"
proof -
  have "sum_list (map (\<lambda>x. k * x + c) xs) = k * sum_list xs + real (length xs) * c"
    by (induction xs) (simp_all add: algebra_simps)
  moreover have "real (length xs) \<noteq> 0" using assms by simp
  ultimately show ?thesis
    by (simp add: mean_def field_simps)
qed

lemma ssq_affine: "ssq (map (\<lambda>x. k * x + c) xs) = k * k * ssq xs"
proof (cases "xs = []")
  case True
  then show ?thesis by (simp add: ssq_def)
next
  case False
  define m where "m = mean xs"
  have "ssq (map (\<lambda>x. k * x + c) xs)
      = (\<Sum>x\<leftarrow>xs. (k * x + c - (k * m + c)) * (k * x + c - (k * m + c)))"
    by (simp add: ssq_def mean_affine [OF False] comp_def m_def)
  also have "\<dots> = (\<Sum>x\<leftarrow>xs. k * k * ((x - m) * (x - m)))"
    by (rule arg_cong [where f = sum_list], rule map_cong) (simp_all add: algebra_simps)
  also have "\<dots> = k * k * ssq xs"
    by (simp add: ssq_def sum_list_const_mult m_def)
  finally show ?thesis .
qed

lemma sprod_affine:
  assumes "map snd ps = map (\<lambda>x. k * x + c) (map fst ps)"
  shows "sprod ps = k * ssq (map fst ps)"
proof (cases "ps = []")
  case True
  then show ?thesis by (simp add: sprod_def ssq_def)
next
  case False
  from assms have snd_eq: "\<forall>p\<in>set ps. snd p = k * fst p + c"
    by simp
  define m where "m = mean (map fst ps)"
  have "map fst ps \<noteq> []"
    using False by simp
  then have "mean (map (\<lambda>x. k * x + c) (map fst ps)) = k * m + c"
    unfolding m_def by (rule mean_affine)
  then have mean_snd: "mean (map snd ps) = k * m + c"
    by (simp only: assms)
  have "sprod ps = (\<Sum>p\<leftarrow>ps. (fst p - m) * (snd p - (k * m + c)))"
    by (simp add: sprod_alt mean_snd m_def)
  also have "\<dots> = (\<Sum>p\<leftarrow>ps. k * ((fst p - m) * (fst p - m)))"
    by (rule arg_cong [where f = sum_list], rule map_cong)
      (simp_all add: snd_eq algebra_simps)
  also have "\<dots> = k * ssq (map fst ps)"
    by (simp add: ssq_fst sum_list_const_mult m_def)
  finally show ?thesis .
qed

lemma pearson_affine:
  assumes lin: "map snd ps = map (\<lambda>x. k * x + c) (map fst ps)"
    and var: "ssq (map fst ps) \<noteq> 0" and k: "k \<noteq> 0"
  shows "pearson ps = Some (if 0 < k then 1 else - 1)"
proof -
  let ?s = "ssq (map fst ps)"
  have spos: "0 < ?s" using var ssq_nonneg [of "map fst ps"] by simp
  have ne: "ps \<noteq> []" using var by (auto simp: ssq_def)
  have "ssq (map snd ps) = k * k * ?s"
    by (simp only: lin ssq_affine)
  then have "sqrt (?s * ssq (map snd ps)) = sqrt ((\<bar>k\<bar> * ?s) * (\<bar>k\<bar> * ?s))"
    by (simp add: algebra_simps)
  also have "\<dots> = \<bar>k\<bar> * ?s"
    using spos by (simp only: real_sqrt_abs2) simp
  finally have d: "sqrt (?s * ssq (map snd ps)) = \<bar>k\<bar> * ?s" .
  have dne: "\<bar>k\<bar> * ?s \<noteq> 0" using k var by simp
  have "pearson ps = Some (k * ?s / (\<bar>k\<bar> * ?s))"
    using ne dne by (simp add: pearson_def d sprod_affine [OF lin])
  also have "k * ?s / (\<bar>k\<bar> * ?s) = (if 0 < k then 1 else - 1)"
    using k var by (simp add: abs_if)
  finally show ?thesis .
qed

lemma pearson_identical:
  assumes "map snd ps = map fst ps" and "ssq (map fst ps) \<noteq> 0"
  shows "pearson ps = Some 1"
  using pearson_affine [of ps 1 0] assms by simp

lemma pearson_undefined: "ssq (map fst ps) = 0 \<Longrightarrow> pearson ps = None"
  by (simp add: pearson_def)

lemma pairs_map_option:
  "map fst (pairs c (map (map_option f) c)) = finite_values c \<and>
   map snd (pairs c (map (map_option f) c)) = map f (finite_values c)"
proof (induction c)
  case Nil
  then show ?case by (simp add: finite_values_def)
next
  case (Cons a c)
  then show ?case by (cases a) (simp_all add: finite_values_def)
qed

lemma pairs_self: "map snd (pairs c c) = finite_values c"
proof (induction c)
  case Nil
  then show ?case by (simp add: finite_values_def)
next
  case (Cons a c)
  then show ?case by (cases a) (simp_all add: finite_values_def)
qed

lemma variance_ssq: "variance xs = Some v \<Longrightarrow> v \<noteq> 0 \<Longrightarrow> ssq xs \<noteq> 0"
  by (auto simp: variance_def split: if_splits)

lemma pearson_same_column:
  assumes "variance (finite_values c) = Some v" and "v \<noteq> 0"
  shows "pearson (pairs c c) = Some 1"
proof (rule pearson_identical)
  show "map snd (pairs c c) = map fst (pairs c c)"
    by (simp add: pairs_self finite_values_def)
  show "ssq (map fst (pairs c c)) \<noteq> 0"
    using variance_ssq [OF assms] by (simp add: finite_values_def)
qed

lemma pearson_scaled_column:
  assumes "variance (finite_values c) = Some v" and "v \<noteq> 0" and "k < 0"
  shows "pearson (pairs c (map (map_option (\<lambda>r. k * r)) c)) = Some (- 1)"
proof -
  let ?ps = "pairs c (map (map_option (\<lambda>r. k * r)) c)"
  have "map snd ?ps = map (\<lambda>x. k * x + 0) (map fst ?ps)"
    by (simp add: pairs_map_option)
  moreover have "ssq (map fst ?ps) \<noteq> 0"
    using variance_ssq [OF assms(1,2)] by (simp add: pairs_map_option)
  moreover have "k \<noteq> 0" using assms(3) by simp
  ultimately have "pearson ?ps = Some (if 0 < k then 1 else - 1)"
    by (rule pearson_affine)
  with assms(3) show ?thesis by simp
qed

section \<open>Shape, symmetry, diagonal and range of the computed matrix\<close>

text \<open>
  Claim C3. The matrix that line 38 computes is square, with the same labels on its rows
  and its columns, and symmetric, for every list of tickers and every provider. It is
  never returned: the call ends in the \<open>NameError\<close> of line 42.
\<close>

theorem C3_square_symmetric_but_not_returned:
  "is_square (correlation_matrix pad P tickers period s) \<and>
   is_symmetric (correlation_matrix pad P tickers period s) \<and>
   fst (analyze_market_correlations pad P tickers period s) = Inl (NameError ''sns'')"
  by (simp add: is_square_correlation_matrix is_symmetric_correlation_matrix analyze_eq)

theorem C3_witness:
  "columns (correlation_matrix False demo_provider demo_tickers ''3mo'' new_kernel)
     = [''SPY'', ''QQQ'', ''TLT'', ''GLD''] \<and>
   is_square (correlation_matrix False demo_provider demo_tickers ''3mo'' new_kernel) \<and>
   is_symmetric (correlation_matrix False demo_provider demo_tickers ''3mo'' new_kernel) \<and>
   fst (analyze_market_correlations False demo_provider demo_tickers ''3mo'' new_kernel)
     = Inl (NameError ''sns'')"
  using C3_square_symmetric_but_not_returned
    [of False demo_provider demo_tickers "''3mo''" new_kernel]
  by (simp add: demo_columns)

text \<open>
  Claim C4. In the matrix that line 38 computes, the diagonal cell of a ticker whose
  returns have a variance other than 0 is 1 (in exact arithmetic). The returns of a
  ticker are its column of \<^verbatim>\<open>df.pct_change()\<close>, the numbers the routine correlates.
  The matrix is never returned: the call ends in the \<open>NameError\<close> of line 42.
\<close>

theorem C4_diagonal_one_but_not_returned:
  assumes "i < length (columns (correlation_matrix pad P tickers period s))"
    and "variance (finite_values (cols (returns_table pad P tickers period s) ! i)) = Some v"
    and "v \<noteq> 0"
  shows "entry (correlation_matrix pad P tickers period s) i i = Some 1 \<and>
    fst (analyze_market_correlations pad P tickers period s) = Inl (NameError ''sns'')"
  using assms by (simp add: entry_correlation_matrix pearson_same_column analyze_eq)

theorem C4_witness:
  "(0::nat) < length (columns (correlation_matrix False demo_provider demo_tickers ''3mo'' new_kernel)) \<and>
   variance (finite_values
     (cols (returns_table False demo_provider demo_tickers ''3mo'' new_kernel) ! 0))
     = Some (1 / 50) \<and>
   (1 / 50 :: real) \<noteq> 0 \<and>
   entry (correlation_matrix False demo_provider demo_tickers ''3mo'' new_kernel) 0 0 = Some 1 \<and>
   fst (analyze_market_correlations False demo_provider demo_tickers ''3mo'' new_kernel)
     = Inl (NameError ''sns'')"
proof -
  have i: "(0::nat) < length (columns (correlation_matrix False demo_provider demo_tickers ''3mo'' new_kernel))"
    by (simp add: demo_columns)
  have v: "variance (finite_values
      (cols (returns_table False demo_provider demo_tickers ''3mo'' new_kernel) ! 0))
      = Some (1 / 50)"
    by (simp only: demo_returns nth_Cons_0 demo_variance)
  have n: "(1 / 50 :: real) \<noteq> 0"
    by simp
  from C4_diagonal_one_but_not_returned [OF i v n] i v n show ?thesis
    by simp
qed

text \<open>
  As stated, claim C5 fails: the returns of a price that never moves are constant, their
  correlation is undefined, and the cell is NaN, which is not in the interval from -1
  to 1.
\<close>

theorem C5_constant_price_counterexample:
  "\<not> in_unit_interval (entry (correlation_matrix False demo_provider [''GLD''] ''3mo'' new_kernel) 0 0) \<and>
   \<not> in_unit_interval (entry (correlation_matrix True demo_provider [''GLD''] ''3mo'' new_kernel) 0 0)"
  by (simp add: correlation_matrix_def try_body_eq demo_provider_def pct_change_def
      DataFrame_def pct_col_def change_def corr_def pearson_def ssq_def mean_def entry_def
      in_unit_interval_def)

text \<open>
  Claim C5, as amended. A cell of the matrix that line 38 computes is either undefined
  (NaN) or a number between -1 and 1 (in exact arithmetic), for every list of tickers and
  every provider.
\<close>

theorem C5_entries_undefined_or_in_unit_interval:
  assumes "i < length (columns (correlation_matrix pad P tickers period s))"
    and "j < length (columns (correlation_matrix pad P tickers period s))"
  shows "entry (correlation_matrix pad P tickers period s) i j = None \<or>
    in_unit_interval (entry (correlation_matrix pad P tickers period s) i j)"
proof (cases "entry (correlation_matrix pad P tickers period s) i j")
  case None
  then show ?thesis by simp
next
  case (Some r)
  then have "pearson (pairs (cols (returns_table pad P tickers period s) ! i)
      (cols (returns_table pad P tickers period s) ! j)) = Some r"
    using assms by (simp add: entry_correlation_matrix)
  then have "- 1 \<le> r \<and> r \<le> 1"
    by (rule pearson_bounded)
  with Some show ?thesis
    by (simp add: in_unit_interval_def)
qed

theorem C5_witness:
  "(0::nat) < length (columns (correlation_matrix False demo_provider demo_tickers ''3mo'' new_kernel)) \<and>
   (2::nat) < length (columns (correlation_matrix False demo_provider demo_tickers ''3mo'' new_kernel)) \<and>
   entry (correlation_matrix False demo_provider demo_tickers ''3mo'' new_kernel) 0 2 \<noteq> None \<and>
   in_unit_interval (entry (correlation_matrix False demo_provider demo_tickers ''3mo'' new_kernel) 0 2)"
proof -
  have i: "(0::nat) < length (columns (correlation_matrix False demo_provider demo_tickers ''3mo'' new_kernel))"
    and j: "(2::nat) < length (columns (correlation_matrix False demo_provider demo_tickers ''3mo'' new_kernel))"
    by (simp_all add: demo_columns)
  have "pearson (pairs [None, Some (1 / 10), Some (- (1 / 10))]
      (map (map_option (\<lambda>r. (- 1) * r)) [None, Some (1 / 10), Some (- (1 / 10))])) = Some (- 1)"
    by (rule pearson_scaled_column [OF demo_variance]) simp_all
  then have e: "entry (correlation_matrix False demo_provider demo_tickers ''3mo'' new_kernel) 0 2
      = Some (- 1)"
    by (simp add: entry_correlation_matrix [OF i j] demo_returns)
  from C5_entries_undefined_or_in_unit_interval [OF i j] i j e show ?thesis
    by simp
qed

section \<open>Identical and inverse returns\<close>

lemma sum_list_all_equal: "\<forall>x\<in>set ys. x = a \<Longrightarrow> sum_list ys = real (length ys) * (a::real)"
  by (induction ys) (simp_all add: algebra_simps)

lemma sum_list_map_zero: "\<forall>x\<in>set ys. f x = (0::real) \<Longrightarrow> sum_list (map f ys) = 0"
  by (induction ys) simp_all

lemma ssq_all_equal:
  assumes "\<forall>x\<in>set ys. x = a"
  shows "ssq ys = 0"
proof (cases "ys = []")
  case True
  then show ?thesis by (simp add: ssq_def)
next
  case False
  then have "mean ys = a"
    using sum_list_all_equal [OF assms] by (simp add: mean_def)
  with assms have "\<forall>x\<in>set ys. (x - mean ys) * (x - mean ys) = 0"
    by simp
  then show ?thesis
    unfolding ssq_def by (rule sum_list_map_zero)
qed

lemma ssq_zero_all_equal:
  assumes "ssq xs = 0"
  shows "\<forall>x\<in>set xs. x = mean xs"
proof -
  have "sum_list (map (\<lambda>x. (x - mean xs) * (x - mean xs)) xs) = 0"
    using assms by (simp add: ssq_def)
  moreover have "\<forall>y\<in>set (map (\<lambda>x. (x - mean xs) * (x - mean xs)) xs). 0 \<le> y"
    by auto
  ultimately have "\<forall>y\<in>set (map (\<lambda>x. (x - mean xs) * (x - mean xs)) xs). y = 0"
    by (simp only: sum_list_nonneg_eq_0_iff)
  then show ?thesis
    by simp
qed

lemma set_fst_pairs: "set (map fst (pairs c d)) \<subseteq> set (finite_values c)"
proof (induction c arbitrary: d)
  case Nil
  then show ?case by (simp add: finite_values_def)
next
  case (Cons x c)
  show ?case
  proof (cases d)
    case Nil
    then show ?thesis by simp
  next
    case (Cons y d')
    have sub: "set (map fst (pairs c d')) \<subseteq> set (finite_values c)"
      by (rule Cons.IH)
    show ?thesis
    proof (cases x)
      case None
      with sub show ?thesis
        by (simp add: Cons finite_values_def)
    next
      case (Some a)
      with sub show ?thesis
        by (cases y) (auto simp: Cons finite_values_def)
    qed
  qed
qed

lemma ssq_single: "length xs < 2 \<Longrightarrow> ssq xs = 0"
proof -
  assume "length xs < 2"
  then consider "xs = []" | x where "xs = [x]"
    by (cases xs; cases "tl xs") auto
  then show ?thesis
    by cases (simp_all add: ssq_def mean_def)
qed

lemma variance_zero_ssq:
  assumes "variance xs = None \<or> variance xs = Some 0"
  shows "ssq xs = 0"
proof (cases "length xs < 2")
  case True
  then show ?thesis by (rule ssq_single)
next
  case False
  with assms have "ssq xs / (real (length xs) - 1) = 0"
    by (simp add: variance_def)
  with False show ?thesis
    by simp
qed

lemma pearson_constant_column:
  assumes "variance (finite_values c) = None \<or> variance (finite_values c) = Some 0"
  shows "pearson (pairs c d) = None"
proof -
  have "\<forall>x\<in>set (finite_values c). x = mean (finite_values c)"
    using variance_zero_ssq [OF assms] by (rule ssq_zero_all_equal)
  with set_fst_pairs [of c d]
  have "\<forall>x\<in>set (map fst (pairs c d)). x = mean (finite_values c)"
    by blast
  then have "ssq (map fst (pairs c d)) = 0"
    by (rule ssq_all_equal)
  then show ?thesis
    by (rule pearson_undefined)
qed

text \<open>
  As stated, claim C6 fails in two ways. Two tickers whose prices double every day have
  identical returns, but these have the variance 0, so the correlation is undefined and
  the cell is NaN, not 1. And two tickers with the same three prices, one of them a day
  later, have identical returns of their own, with the variance 1/50; but the routine
  correlates the columns of the table aligned by date, which differ, and the cell is NaN
  where pandas does not pad and -1 where it does.
\<close>

theorem C6_identical_returns_counterexample:
  "cols (returns_table False demo_provider [''IWM'', ''DIA''] ''3mo'' new_kernel) ! 0
     = cols (returns_table False demo_provider [''IWM'', ''DIA''] ''3mo'' new_kernel) ! 1 \<and>
   cols (returns_table False demo_provider [''IWM'', ''DIA''] ''3mo'' new_kernel) ! 0
     = [None, Some 1, Some 1] \<and>
   entry (correlation_matrix False demo_provider [''IWM'', ''DIA''] ''3mo'' new_kernel) 0 1
     \<noteq> Some 1 \<and>
   shifted_provider 0 ''SPY'' ''3mo'' = Inr [(0, Some 100), (1, Some 110), (2, Some 99)] \<and>
   shifted_provider 1 ''QQQ'' ''3mo'' = Inr [(1, Some 100), (2, Some 110), (3, Some 99)] \<and>
   own_returns [(0, Some 100), (1, Some 110), (2, Some 99)]
     = own_returns [(1, Some 100), (2, Some 110), (3, Some 99)] \<and>
   variance (finite_values (own_returns [(0, Some 100), (1, Some 110), (2, Some 99)]))
     = Some (1 / 50) \<and>
   entry (correlation_matrix False shifted_provider [''SPY'', ''QQQ''] ''3mo'' new_kernel) 0 1
     = None \<and>
   entry (correlation_matrix True shifted_provider [''SPY'', ''QQQ''] ''3mo'' new_kernel) 0 1
     = Some (- 1)"
proof -
  have doubled: "cols (returns_table False demo_provider [''IWM'', ''DIA''] ''3mo'' new_kernel) ! 0
       = cols (returns_table False demo_provider [''IWM'', ''DIA''] ''3mo'' new_kernel) ! 1 \<and>
     cols (returns_table False demo_provider [''IWM'', ''DIA''] ''3mo'' new_kernel) ! 0
       = [None, Some 1, Some 1] \<and>
     entry (correlation_matrix False demo_provider [''IWM'', ''DIA''] ''3mo'' new_kernel) 0 1
       \<noteq> Some 1"
    by (simp add: returns_table_def price_table_def correlation_matrix_def try_body_eq
        demo_provider_def pct_change_def DataFrame_def pct_col_def change_def corr_def
        pearson_def ssq_def mean_def entry_def)
  have answers: "shifted_provider 0 ''SPY'' ''3mo'' = Inr [(0, Some 100), (1, Some 110), (2, Some 99)] \<and>
     shifted_provider 1 ''QQQ'' ''3mo'' = Inr [(1, Some 100), (2, Some 110), (3, Some 99)]"
    by (simp add: shifted_provider_def)
  have own: "own_returns [(0, Some 100), (1, Some 110), (2, Some 99)]
       = own_returns [(1, Some 100), (2, Some 110), (3, Some 99)] \<and>
     variance (finite_values (own_returns [(0, Some 100), (1, Some 110), (2, Some 99)]))
       = Some (1 / 50)"
    by (simp add: own_returns_def pct_col_def change_def variance_def finite_values_def
        ssq_def mean_def)
  have unpadded: "entry (correlation_matrix False shifted_provider [''SPY'', ''QQQ''] ''3mo'' new_kernel) 0 1
      = None"
    by (simp add: correlation_matrix_def try_body_eq shifted_provider_def pct_change_def
        DataFrame_def pct_col_def change_def corr_def pearson_def ssq_def mean_def entry_def)
  have "pearson [(- (1 / 10), 1 / 10), (0, - (1 / 10))] = Some (if 0 < (- 2 :: real) then 1 else - 1)"
    by (rule pearson_affine [where c = "- (1 / 10)"]) (simp_all add: ssq_def mean_def)
  then have padded: "entry (correlation_matrix True shifted_provider [''SPY'', ''QQQ''] ''3mo'' new_kernel) 0 1
      = Some (- 1)"
    by (simp add: correlation_matrix_def try_body_eq shifted_provider_def pct_change_def
        DataFrame_def pct_col_def change_def corr_def entry_def)
  from doubled answers own unpadded padded show ?thesis
    by blast
qed

text \<open>
  Claim C6, as amended. The return series of a ticker is its column of
  \<^verbatim>\<open>df.pct_change()\<close>, the table aligned by date that the routine correlates. In the
  matrix that line 38 computes, the cell of two tickers whose return columns are
  identical, with a variance other than 0, is 1; the cell of two tickers of which one
  return column is a negative multiple of the other, with a variance other than 0, is
  -1 (in exact arithmetic); and where the return column of a ticker has the variance 0,
  or fewer than two returns, every cell of its row is NaN.
\<close>

theorem C6_identical_one_inverse_minus_one:
  assumes "i < length (columns (correlation_matrix pad P tickers period s))"
    and "j < length (columns (correlation_matrix pad P tickers period s))"
  shows "(\<forall>v. variance (finite_values (cols (returns_table pad P tickers period s) ! i)) = Some v
            \<and> v \<noteq> 0
            \<and> cols (returns_table pad P tickers period s) ! j
                = cols (returns_table pad P tickers period s) ! i
          \<longrightarrow> entry (correlation_matrix pad P tickers period s) i j = Some 1) \<and>
         (\<forall>v k. variance (finite_values (cols (returns_table pad P tickers period s) ! i)) = Some v
            \<and> v \<noteq> 0 \<and> k < 0
            \<and> cols (returns_table pad P tickers period s) ! j
                = map (map_option (\<lambda>r. k * r)) (cols (returns_table pad P tickers period s) ! i)
          \<longrightarrow> entry (correlation_matrix pad P tickers period s) i j = Some (- 1)) \<and>
         (variance (finite_values (cols (returns_table pad P tickers period s) ! i)) = None
            \<or> variance (finite_values (cols (returns_table pad P tickers period s) ! i)) = Some 0
          \<longrightarrow> entry (correlation_matrix pad P tickers period s) i j = None)"
  using assms
  by (simp add: entry_correlation_matrix pearson_same_column pearson_scaled_column
      pearson_constant_column)

theorem C6_witness:
  "cols (returns_table False demo_provider demo_tickers ''3mo'' new_kernel) ! 1
     = cols (returns_table False demo_provider demo_tickers ''3mo'' new_kernel) ! 0 \<and>
   entry (correlation_matrix False demo_provider demo_tickers ''3mo'' new_kernel) 0 1 = Some 1 \<and>
   cols (returns_table False demo_provider demo_tickers ''3mo'' new_kernel) ! 2
     = map (map_option (\<lambda>r. (- 1) * r))
         (cols (returns_table False demo_provider demo_tickers ''3mo'' new_kernel) ! 0) \<and>
   entry (correlation_matrix False demo_provider demo_tickers ''3mo'' new_kernel) 0 2 = Some (- 1) \<and>
   variance (finite_values
     (cols (returns_table False demo_provider demo_tickers ''3mo'' new_kernel) ! 3)) = Some 0 \<and>
   entry (correlation_matrix False demo_provider demo_tickers ''3mo'' new_kernel) 3 0 = None"
proof -
  let ?R = "returns_table False demo_provider demo_tickers ''3mo'' new_kernel"
  let ?m = "correlation_matrix False demo_provider demo_tickers ''3mo'' new_kernel"
  have i: "(0::nat) < length (columns ?m)" and j1: "(1::nat) < length (columns ?m)"
    and j2: "(2::nat) < length (columns ?m)" and j3: "(3::nat) < length (columns ?m)"
    by (simp_all add: demo_columns)
  have v: "variance (finite_values (cols ?R ! 0)) = Some (1 / 50)"
    by (simp only: demo_returns nth_Cons_0 demo_variance)
  have n: "(1 / 50 :: real) \<noteq> 0"
    by simp
  have same: "cols ?R ! 1 = cols ?R ! 0"
    by (simp add: demo_returns)
  have inverse: "cols ?R ! 2 = map (map_option (\<lambda>r. (- 1) * r)) (cols ?R ! 0)"
    by (simp add: demo_returns)
  have neg: "(- 1 :: real) < 0"
    by simp
  have flat: "variance (finite_values (cols ?R ! 3)) = Some 0"
    by (simp add: demo_returns variance_def finite_values_def ssq_def mean_def)
  from C6_identical_one_inverse_minus_one [OF i j1] v n same
  have one: "entry ?m 0 1 = Some 1"
    by blast
  from C6_identical_one_inverse_minus_one [OF i j2] v n inverse neg
  have minus_one: "entry ?m 0 2 = Some (- 1)"
    by blast
  from C6_identical_one_inverse_minus_one [OF j3 i] flat
  have undefined: "entry ?m 3 0 = None"
    by blast
  from same one inverse minus_one flat undefined show ?thesis
    by blast
qed

section \<open>The computed matrix and the reference definition\<close>

lemma change_return_spec: "change prev cur = return_spec prev cur"
  by (cases prev; cases cur) (simp_all add: change_def return_spec_def diff_divide_distrib)

lemma length_pct_col: "length (pct_col xs) = length xs"
  by (cases xs) (simp_all add: pct_col_def)

lemma pct_col_returns_spec: "pct_col xs = returns_spec xs"
proof (rule nth_equalityI)
  show "length (pct_col xs) = length (returns_spec xs)"
    by (simp add: length_pct_col returns_spec_def)
next
  fix i
  assume "i < length (pct_col xs)"
  then have i: "i < length xs"
    by (simp add: length_pct_col)
  then obtain x rest where xs: "xs = x # rest"
    by (cases xs) auto
  show "pct_col xs ! i = returns_spec xs ! i"
  proof (cases i)
    case 0
    with i show ?thesis
      by (simp add: xs pct_col_def returns_spec_def del: upt_Suc)
  next
    case (Suc k)
    with i have k: "k < length rest"
      by (simp add: xs)
    have "pct_col xs ! i = change ((x # rest) ! k) (rest ! k)"
      using k by (simp add: xs Suc pct_col_def)
    also have "\<dots> = return_spec (xs ! k) (xs ! Suc k)"
      by (simp add: xs change_return_spec)
    also have "\<dots> = returns_spec xs ! i"
      using i by (simp add: returns_spec_def Suc del: upt_Suc)
    finally show ?thesis .
  qed
qed

lemma ffill_complete: "None \<notin> set c \<Longrightarrow> ffill p c = c"
proof (induction c arbitrary: p)
  case Nil
  then show ?case by simp
next
  case (Cons a c)
  then show ?case by (cases a) simp_all
qed

lemma pearson_pearson_spec: "pearson ps = pearson_spec ps"
proof (cases "length ps < 2")
  case True
  then have "ssq (map fst ps) = 0"
    by (simp add: ssq_single)
  with True show ?thesis
    by (simp add: pearson_def pearson_spec_def)
next
  case False
  define m where "m = real (length ps) - 1"
  have mpos: "0 < m"
    using False by (simp add: m_def)
  define sx where "sx = ssq (map fst ps)"
  define sy where "sy = ssq (map snd ps)"
  have ne: "ps \<noteq> []"
    using False by auto
  have stdx: "std (map fst ps) = sqrt sx / sqrt m"
    by (simp add: std_def sx_def m_def real_sqrt_divide)
  have stdy: "std (map snd ps) = sqrt sy / sqrt m"
    by (simp add: std_def sy_def m_def real_sqrt_divide)
  have prod: "std (map fst ps) * std (map snd ps) = sqrt (sx * sy) / m"
    using mpos by (simp add: stdx stdy real_sqrt_mult)
  have zero: "std (map fst ps) = 0 \<or> std (map snd ps) = 0 \<longleftrightarrow> sqrt (sx * sy) = 0"
    using mpos by (simp add: stdx stdy)
  show ?thesis
  proof (cases "sqrt (sx * sy) = 0")
    case True
    with zero ne show ?thesis
      by (simp add: pearson_def pearson_spec_def sx_def sy_def)
  next
    case nz: False
    with zero have nz': "\<not> (std (map fst ps) = 0 \<or> std (map snd ps) = 0)"
      by simp
    have "covariance ps / (std (map fst ps) * std (map snd ps))
        = (sprod ps / m) / (sqrt (sx * sy) / m)"
      by (simp only: prod covariance_def m_def)
    also have "\<dots> = sprod ps / sqrt (sx * sy)"
      using mpos by simp
    finally have "pearson_spec ps = Some (sprod ps / sqrt (sx * sy))"
      using False nz' by (simp add: pearson_spec_def)
    moreover have "pearson ps = Some (sprod ps / sqrt (sx * sy))"
      using ne nz by (simp add: pearson_def sx_def sy_def)
    ultimately show ?thesis by simp
  qed
qed

lemma correlation_matrix_reference:
  assumes "pad \<longrightarrow> complete (price_table P tickers period s)"
  shows "correlation_matrix pad P tickers period s
    = reference_matrix (price_table P tickers period s)"
proof -
  let ?df = "price_table P tickers period s"
  have "map (\<lambda>c. pct_col (if pad then ffill None c else c)) (cols ?df)
      = map returns_spec (cols ?df)"
  proof (rule map_cong [OF refl])
    fix c
    assume "c \<in> set (cols ?df)"
    with assms have "(if pad then ffill None c else c) = c"
      by (auto simp: complete_def ffill_complete)
    then show "pct_col (if pad then ffill None c else c) = returns_spec c"
      by (simp add: pct_col_returns_spec)
  qed
  then show ?thesis
    by (simp add: correlation_matrix_def price_table_def reference_matrix_def corr_def
        pct_change_def Let_def pearson_pearson_spec)
qed

text \<open>
  Claim C7. The matrix that line 38 computes is the reference matrix: the Pearson
  coefficients of the percentage changes of the columns of the price table (where pandas
  pads missing prices first, for a table with no missing price). It is not the
  correlation of the prices themselves: for a price that doubles every day the two
  differ. The matrix is never returned: the call ends in the \<open>NameError\<close> of line 42.
\<close>

theorem C7_reference_matrix_but_not_returned:
  assumes "pad \<longrightarrow> complete (price_table P tickers period s)"
  shows "correlation_matrix pad P tickers period s
      = reference_matrix (price_table P tickers period s) \<and>
    entry (correlation_matrix pad demo_provider [''IWM''] ''3mo'' new_kernel) 0 0
      \<noteq> entry (corr (price_table demo_provider [''IWM''] ''3mo'' new_kernel)) 0 0 \<and>
    fst (analyze_market_correlations pad P tickers period s) = Inl (NameError ''sns'')"
proof -
  have "entry (correlation_matrix pad demo_provider [''IWM''] ''3mo'' new_kernel) 0 0 = None"
    by (simp add: correlation_matrix_def try_body_eq demo_provider_def pct_change_def
        DataFrame_def pct_col_def change_def corr_def pearson_def ssq_def mean_def entry_def)
  moreover have "pearson (pairs [Some 1, Some 2, Some 4] [Some 1, Some 2, Some 4]) = Some 1"
    by (rule pearson_identical) (simp_all add: ssq_def mean_def)
  then have "entry (corr (price_table demo_provider [''IWM''] ''3mo'' new_kernel)) 0 0 = Some 1"
    by (simp add: price_table_def try_body_eq demo_provider_def DataFrame_def corr_def
        entry_def)
  ultimately show ?thesis
    using correlation_matrix_reference [OF assms] by (simp add: analyze_eq)
qed

theorem C7_witness:
  "complete (price_table demo_provider demo_tickers ''3mo'' new_kernel) \<and>
   correlation_matrix True demo_provider demo_tickers ''3mo'' new_kernel
     = reference_matrix (price_table demo_provider demo_tickers ''3mo'' new_kernel) \<and>
   columns (reference_matrix (price_table demo_provider demo_tickers ''3mo'' new_kernel))
     = [''SPY'', ''QQQ'', ''TLT'', ''GLD''] \<and>
   fst (analyze_market_correlations True demo_provider demo_tickers ''3mo'' new_kernel)
     = Inl (NameError ''sns'')"
proof -
  have c: "complete (price_table demo_provider demo_tickers ''3mo'' new_kernel)"
    by (simp only: price_table_def demo_data) (simp add: complete_def DataFrame_def)
  then have h: "True \<longrightarrow> complete (price_table demo_provider demo_tickers ''3mo'' new_kernel)"
    by simp
  have l: "columns (reference_matrix (price_table demo_provider demo_tickers ''3mo'' new_kernel))
      = [''SPY'', ''QQQ'', ''TLT'', ''GLD'']"
    by (simp only: price_table_def demo_data) (simp add: reference_matrix_def DataFrame_def)
  from C7_reference_matrix_but_not_returned [OF h] c l show ?thesis
    by simp
qed

section \<open>The order of the labels\<close>

lemma map_fst_answers: "map fst (answers P period n ts) = ts"
  by (induction ts arbitrary: n) simp_all

lemma distinct_fetched: "distinct ts \<Longrightarrow> distinct (fetched P period n ts)"
  unfolding fetched_def
  by (rule distinct_map_filter) (simp add: map_fst_answers)

text \<open>
  Claim C10. The row and column labels of the matrix that line 38 computes are the
  tickers of the requests that returned a series, in the order of the input list, each at
  the place of its first such request; for a list without repetitions these are the
  fetched tickers as they stand. The matrix is never returned: the call ends in the
  \<open>NameError\<close> of line 42.
\<close>

theorem C10_labels_in_input_order_but_not_returned:
  "columns (correlation_matrix pad P tickers period s)
     = first_seen (fetched P period (length (requests s)) tickers) \<and>
   index (correlation_matrix pad P tickers period s)
     = columns (correlation_matrix pad P tickers period s) \<and>
   (distinct tickers \<longrightarrow>
      columns (correlation_matrix pad P tickers period s)
        = fetched P period (length (requests s)) tickers) \<and>
   fst (analyze_market_correlations pad P tickers period s) = Inl (NameError ''sns'')"
  by (simp add: columns_correlation_matrix index_correlation_matrix analyze_eq
      first_seen_distinct distinct_fetched)

theorem C10_witness:
  "distinct demo_tickers \<and>
   demo_tickers = [''SPY'', ''VIX'', ''QQQ'', ''TLT'', ''GLD''] \<and>
   columns (correlation_matrix False demo_provider demo_tickers ''3mo'' new_kernel)
     = [''SPY'', ''QQQ'', ''TLT'', ''GLD''] \<and>
   index (correlation_matrix False demo_provider demo_tickers ''3mo'' new_kernel)
     = [''SPY'', ''QQQ'', ''TLT'', ''GLD''] \<and>
   fst (analyze_market_correlations False demo_provider demo_tickers ''3mo'' new_kernel)
     = Inl (NameError ''sns'')"
proof -
  let ?m = "correlation_matrix False demo_provider demo_tickers ''3mo'' new_kernel"
  have d: "distinct demo_tickers"
    by (simp add: demo_tickers_def)
  have t: "demo_tickers = [''SPY'', ''VIX'', ''QQQ'', ''TLT'', ''GLD'']"
    by (simp add: demo_tickers_def)
  from C10_labels_in_input_order_but_not_returned
    [of False demo_provider demo_tickers "''3mo''" new_kernel] d
  have "columns ?m = fetched demo_provider ''3mo'' (length (requests new_kernel)) demo_tickers"
    and "index ?m = columns ?m"
    and "fst (analyze_market_correlations False demo_provider demo_tickers ''3mo'' new_kernel)
      = Inl (NameError ''sns'')"
    by blast+
  with d t show ?thesis
    by (simp only: demo_fetched)
qed

section \<open>The universe of instruments\<close>

lemma universe_view_cong:
  "heap s' = heap s \<Longrightarrow> research_universe s' = research_universe s \<Longrightarrow>
   universe_view s' = universe_view s"
  by (simp add: universe_view_def contents_def)

lemma analyze_frame:
  "heap (snd (analyze_market_correlations pad P tickers period s)) = heap s \<and>
   research_universe (snd (analyze_market_correlations pad P tickers period s))
     = research_universe s"
  by (simp add: analyze_eq fetch_loop_frame)

lemma universe_view_analyze:
  "universe_view (snd (analyze_market_correlations pad P tickers period s)) = universe_view s"
  by (rule universe_view_cong) (simp_all add: analyze_frame)

lemma universe_view_define:
  "universe_view (define_universe s0) =
     [(''indices'', [''SPY'', ''QQQ'', ''IWM'', ''DIA'']),
      (''sectors'', [''XLF'', ''XLK'', ''XLE'', ''XLV'', ''XLI'']),
      (''commodities'', [''GLD'', ''SLV'', ''USO'', ''UNG'']),
      (''bonds'', [''TLT'', ''IEF'', ''SHY'', ''HYG'']),
      (''volatility'', [''VIX'', ''UVXY'', ''SVXY''])]"
  by (simp add: universe_view_def define_universe_def new_list_def contents_def)

lemma universe_view_before_call:
  "universe_view (snd (snd (before_call s0))) = universe_view (define_universe s0)"
  by (simp add: before_call_def universe_view_def define_universe_def new_list_def
      list_extend_def print_line_def contents_def Let_def)

text \<open>
  Claim C8. The dictionary of lines 18 to 24 is written once. After the whole cell has
  run, the call of the routine included, it shows the categories and tickers it was
  defined with; and a call of the routine, on any list of tickers in any state, leaves
  it as it was.
\<close>

theorem C8_universe_never_mutated:
  "universe_view (snd (run_cell pad P s0)) = universe_view (define_universe s0) \<and>
   universe_view (define_universe s0) =
     [(''indices'', [''SPY'', ''QQQ'', ''IWM'', ''DIA'']),
      (''sectors'', [''XLF'', ''XLK'', ''XLE'', ''XLV'', ''XLI'']),
      (''commodities'', [''GLD'', ''SLV'', ''USO'', ''UNG'']),
      (''bonds'', [''TLT'', ''IEF'', ''SHY'', ''HYG'']),
      (''volatility'', [''VIX'', ''UVXY'', ''SVXY''])] \<and>
   universe_view (snd (analyze_market_correlations pad P tickers period s)) = universe_view s \<and>
   heap (snd (analyze_market_correlations pad P tickers period s)) = heap s \<and>
   research_universe (snd (analyze_market_correlations pad P tickers period s))
     = research_universe s"
proof -
  have "universe_view (snd (run_cell pad P s0)) = universe_view (snd (snd (before_call s0)))"
    by (simp add: run_cell_def case_prod_unfold Let_def universe_view_analyze)
  then show ?thesis
    by (simp add: universe_view_before_call universe_view_define universe_view_analyze
        analyze_frame)
qed

section \<open>The first ten tickers\<close>

lemma before_call_new_kernel:
  "(case before_call new_kernel of (all_tickers, arg, s) \<Rightarrow>
      all_tickers = 5 \<and> arg = 6 \<and> requests s = [] \<and>
      research_universe s = [(''indices'', 0), (''sectors'', 1), (''commodities'', 2),
                             (''bonds'', 3), (''volatility'', 4)] \<and>
      contents s 0 = [''SPY'', ''QQQ'', ''IWM'', ''DIA''] \<and>
      contents s 1 = [''XLF'', ''XLK'', ''XLE'', ''XLV'', ''XLI''] \<and>
      contents s 2 = [''GLD'', ''SLV'', ''USO'', ''UNG''] \<and>
      contents s 3 = [''TLT'', ''IEF'', ''SHY'', ''HYG''] \<and>
      contents s 4 = [''VIX'', ''UVXY'', ''SVXY''] \<and>
      contents s 5 = [''SPY'', ''QQQ'', ''IWM'', ''DIA'', ''XLF'', ''XLK'', ''XLE'', ''XLV'',
                     ''XLI'', ''GLD'', ''SLV'', ''USO'', ''UNG'', ''TLT'', ''IEF'', ''SHY'',
                     ''HYG'', ''VIX'', ''UVXY'', ''SVXY''] \<and>
      contents s 6 = [''SPY'', ''QQQ'', ''IWM'', ''DIA'', ''XLF'', ''XLK'', ''XLE'', ''XLV'',
                     ''XLI'', ''GLD''])"
  by (simp add: before_call_def new_kernel_def define_universe_def new_list_def
      list_extend_def print_line_def contents_def Let_def)

text \<open>
  As stated, claim C9 fails where it names the tickers after position 10 as the later
  bonds and the volatility tickers: the commodity SLV is among them, and no bond at all
  is among the ten tickers passed.
\<close>

theorem C9_dropped_tickers_counterexample:
  "(case before_call new_kernel of (all_tickers, arg, s) \<Rightarrow>
      \<not> set (drop 10 (contents s all_tickers))
          \<subseteq> set (category s ''bonds'') \<union> set (category s ''volatility'') \<and>
      ''SLV'' \<in> set (category s ''commodities'') \<and>
      ''SLV'' \<in> set (drop 10 (contents s all_tickers)) \<and>
      set (category s ''bonds'') \<inter> set (contents s arg) = {})"
  using before_call_new_kernel by (auto simp: category_def)

text \<open>
  Claim C9, as amended. The last line passes the first ten tickers of the flattened
  universe, so the matrix of line 38 has ten labels at most, all among these ten, the
  requests of the run are for these ten, and the tickers after position 10 are never
  requested: the commodities SLV, USO and UNG, all four bonds and all three volatility
  tickers.
\<close>

theorem C9_only_first_ten_tickers_analysed:
  "(case before_call new_kernel of (all_tickers, arg, s) \<Rightarrow>
      contents s all_tickers
        = category s ''indices'' @ category s ''sectors'' @ category s ''commodities'' @
          category s ''bonds'' @ category s ''volatility'' \<and>
      contents s arg = take 10 (contents s all_tickers) \<and>
      contents s arg
        = [''SPY'', ''QQQ'', ''IWM'', ''DIA'', ''XLF'', ''XLK'', ''XLE'', ''XLV'', ''XLI'', ''GLD''] \<and>
      drop 10 (contents s all_tickers)
        = [''SLV'', ''USO'', ''UNG'', ''TLT'', ''IEF'', ''SHY'', ''HYG'', ''VIX'', ''UVXY'', ''SVXY''] \<and>
      requests (snd (run_cell pad P new_kernel)) = map (\<lambda>t. (t, ''3mo'')) (contents s arg) \<and>
      set (map fst (requests (snd (run_cell pad P new_kernel))))
        \<inter> set (drop 10 (contents s all_tickers)) = {} \<and>
      length (columns (correlation_matrix pad P (contents s arg) ''3mo'' s)) \<le> 10 \<and>
      set (columns (correlation_matrix pad P (contents s arg) ''3mo'' s))
        \<subseteq> set (contents s arg))"
proof -
  let ?ten = "[''SPY'', ''QQQ'', ''IWM'', ''DIA'', ''XLF'', ''XLK'', ''XLE'', ''XLV'', ''XLI'', ''GLD'']"
  let ?rest = "[''SLV'', ''USO'', ''UNG'', ''TLT'', ''IEF'', ''SHY'', ''HYG'', ''VIX'', ''UVXY'', ''SVXY'']"
  obtain s where s: "before_call new_kernel = (5, 6, s)" and r: "requests s = []"
    and arg: "contents s 6 = ?ten"
    and all_tickers: "contents s 5 = ?ten @ ?rest"
    and cats: "category s ''indices'' = [''SPY'', ''QQQ'', ''IWM'', ''DIA'']"
      "category s ''sectors'' = [''XLF'', ''XLK'', ''XLE'', ''XLV'', ''XLI'']"
      "category s ''commodities'' = [''GLD'', ''SLV'', ''USO'', ''UNG'']"
      "category s ''bonds'' = [''TLT'', ''IEF'', ''SHY'', ''HYG'']"
      "category s ''volatility'' = [''VIX'', ''UVXY'', ''SVXY'']"
    using before_call_new_kernel by (cases "before_call new_kernel") (auto simp: category_def)
  have flat: "contents s 5
      = category s ''indices'' @ category s ''sectors'' @ category s ''commodities'' @
        category s ''bonds'' @ category s ''volatility''"
    by (simp add: all_tickers cats)
  have slice: "contents s 6 = take 10 (contents s 5)"
    by (simp add: all_tickers arg)
  have dropped: "drop 10 (contents s 5) = ?rest"
    by (simp add: all_tickers)
  have req: "requests (snd (run_cell pad P new_kernel)) = map (\<lambda>t. (t, ''3mo'')) (contents s 6)"
    by (simp add: run_cell_def s analyze_eq fetch_loop_requests r)
  have disj: "set (map fst (requests (snd (run_cell pad P new_kernel))))
      \<inter> set (drop 10 (contents s 5)) = {}"
    by (simp only: req dropped arg) simp
  have "length (columns (correlation_matrix pad P (contents s 6) ''3mo'' s))
      \<le> length ([] :: string list)
        + length (fetched P ''3mo'' (length (requests s)) (contents s 6))"
    unfolding columns_correlation_matrix first_seen_def by (rule length_foldl_add_new)
  also have "\<dots> \<le> length (contents s 6)"
    using length_fetched [of P "''3mo''" "length (requests s)" "contents s 6"] by simp
  finally have len: "length (columns (correlation_matrix pad P (contents s 6) ''3mo'' s)) \<le> 10"
    by (simp add: arg)
  have "set (fetched P ''3mo'' (length (requests s)) (contents s 6))
      \<subseteq> set (map fst (answers P ''3mo'' (length (requests s)) (contents s 6)))"
    unfolding fetched_def by auto
  then have sub: "set (columns (correlation_matrix pad P (contents s 6) ''3mo'' s))
      \<subseteq> set (contents s 6)"
    by (simp only: columns_correlation_matrix set_first_seen map_fst_answers)
  show ?thesis
    unfolding s prod.case
    using flat slice arg dropped req disj len sub by blast
qed

end
